theory Spec2Isabelle
  imports Complex_Main
begin

section \<open>Floating-point values\<close>

text \<open>
  The planner of \<^verbatim>\<open>trajectories.py\<close> computes with Python floats and, after
  \<^verbatim>\<open>np.sqrt\<close>, with numpy's \<^verbatim>\<open>float64\<close>. A finite float is modelled as the exact
  real it denotes: rounding, the silent overflow of a sum or product to an infinity and
  the sign of zero are not modelled. The non-finite values are modelled, since the code can
  produce them from finite inputs: \<^verbatim>\<open>np.sqrt\<close> of a negative number is NaN, and a
  \<^verbatim>\<open>float64\<close> divided by zero is an infinity or NaN (a Python float divided by zero
  raises \<^verbatim>\<open>ZeroDivisionError\<close> instead). Two events of the arithmetic change what a
  call does and are modelled as well: the \<^verbatim>\<open>OverflowError\<close> of \<^verbatim>\<open>**\<close> on a Python
  float, and the quotient \<^verbatim>\<open>a_max/2.\<close> that is zero for the smallest positive float.
  The inputs of the planners and the query time are finite Python floats, as in the
  module's own example, which writes every number as a float. The calls of \<^verbatim>\<open>print\<close>
  are left out.

  Since rounding is not modelled, a value computed here and the value the code computes
  can differ in the last digits. The general theorems below are therefore stated on what
  the code compares and returns, and do not derive the outcome of a guard from the
  inputs; an outcome is computed only for concrete inputs whose guards are decided with
  a margin.
\<close>

datatype fl = Fin real | PInf | NInf | NaN

fun fneg :: "fl \<Rightarrow> fl" where
  "fneg (Fin a) = Fin (- a)"
| "fneg PInf = NInf"
| "fneg NInf = PInf"
| "fneg NaN = NaN"

fun fadd :: "fl \<Rightarrow> fl \<Rightarrow> fl" where
  "fadd (Fin a) (Fin b) = Fin (a + b)"
| "fadd NaN _ = NaN"
| "fadd _ NaN = NaN"
| "fadd PInf NInf = NaN"
| "fadd NInf PInf = NaN"
| "fadd PInf _ = PInf"
| "fadd _ PInf = PInf"
| "fadd NInf _ = NInf"
| "fadd _ NInf = NInf"

definition fsub :: "fl \<Rightarrow> fl \<Rightarrow> fl" where
  "fsub a b = fadd a (fneg b)"

fun fsign :: "fl \<Rightarrow> real" where
  "fsign (Fin a) = sgn a"
| "fsign PInf = 1"
| "fsign NInf = - 1"
| "fsign NaN = 0"

definition inf_of_sign :: "real \<Rightarrow> fl" where
  "inf_of_sign s = (if 0 < s then PInf else if s < 0 then NInf else NaN)"

fun fmul :: "fl \<Rightarrow> fl \<Rightarrow> fl" where
  "fmul (Fin a) (Fin b) = Fin (a * b)"
| "fmul NaN _ = NaN"
| "fmul _ NaN = NaN"
| "fmul a b = inf_of_sign (fsign a * fsign b)"

text \<open>\<^verbatim>\<open>u**2\<close> on a \<^verbatim>\<open>float64\<close>.\<close>

definition fpow2 :: "fl \<Rightarrow> fl" where
  "fpow2 u = fmul u u"

text \<open>Division of a \<^verbatim>\<open>float64\<close>: dividing by zero gives an infinity of the sign of
  the numerator, and NaN for a zero numerator.\<close>

fun fdiv :: "fl \<Rightarrow> fl \<Rightarrow> fl" where
  "fdiv (Fin a) (Fin b) = (if b = 0 then inf_of_sign a else Fin (a / b))"
| "fdiv NaN _ = NaN"
| "fdiv _ NaN = NaN"
| "fdiv (Fin a) _ = Fin 0"
| "fdiv PInf (Fin b) = (if 0 \<le> b then PInf else NInf)"
| "fdiv NInf (Fin b) = (if 0 \<le> b then NInf else PInf)"
| "fdiv _ _ = NaN"

text \<open>\<^verbatim>\<open>np.sqrt\<close>: NaN below zero. (HOL's \<^term>\<open>sqrt\<close> is total and odd, so the
  guard is written out.)\<close>

fun fsqrt :: "fl \<Rightarrow> fl" where
  "fsqrt (Fin a) = (if a < 0 then NaN else Fin (sqrt a))"
| "fsqrt PInf = PInf"
| "fsqrt NInf = NaN"
| "fsqrt NaN = NaN"

text \<open>Comparisons: every comparison with NaN is false.\<close>

fun flt :: "fl \<Rightarrow> fl \<Rightarrow> bool" where
  "flt (Fin a) (Fin b) = (a < b)"
| "flt NaN _ = False"
| "flt _ NaN = False"
| "flt PInf _ = False"
| "flt _ PInf = True"
| "flt NInf NInf = False"
| "flt NInf _ = True"
| "flt _ NInf = False"

fun fle :: "fl \<Rightarrow> fl \<Rightarrow> bool" where
  "fle (Fin a) (Fin b) = (a \<le> b)"
| "fle NaN _ = False"
| "fle _ NaN = False"
| "fle _ PInf = True"
| "fle PInf _ = False"
| "fle NInf _ = True"
| "fle _ NInf = False"

text \<open>Python's builtin \<^verbatim>\<open>max(a, b)\<close> keeps \<^verbatim>\<open>a\<close> unless \<^verbatim>\<open>b > a\<close>.\<close>

definition fmax :: "fl \<Rightarrow> fl \<Rightarrow> fl" where
  "fmax a b = (if flt a b then b else a)"

text \<open>
  \<^verbatim>\<open>v**2\<close> on a Python float raises \<^verbatim>\<open>OverflowError\<close> when the square is beyond the
  largest float. The largest float is below \<open>2 ^ 1024\<close>, and the square of a float
  overflows exactly when the float is at least \<open>2 ^ 512\<close> in absolute value: the square
  of the next smaller float is still below the largest float.
\<close>

definition pow2_overflows :: "real \<Rightarrow> bool" where
  "pow2_overflows v \<longleftrightarrow> 2 ^ 512 \<le> \<bar>v\<bar>"

text \<open>
  \<^verbatim>\<open>a/2.\<close>: halving a float is exact except in the subnormal range; the smallest
  positive float \<open>1 / 2 ^ 1074\<close> is the only non-zero float whose half is zero (the
  half-way case, rounded to even).
\<close>

definition half :: "real \<Rightarrow> real" where
  "half a = (if \<bar>a\<bar> \<le> 1 / 2 ^ 1074 then 0 else a / 2)"


section \<open>Errors\<close>

text \<open>The exceptions the module raises, with their messages. \<^verbatim>\<open>TypeError\<close> is what
  \<^verbatim>\<open>len(None)\<close> raises, \<^verbatim>\<open>ZeroDivisionError\<close> what a Python float division by zero
  raises, \<^verbatim>\<open>OverflowError\<close> what \<^verbatim>\<open>**\<close> on a Python float raises.\<close>

datatype error =
    ValueError string
  | PlanningError string
  | TypeError
  | ZeroDivisionError
  | OverflowError

text \<open>The names the specification gives to these errors.\<close>

abbreviation MissingLimit :: error where
  "MissingLimit \<equiv> ValueError ''Please specify either a_max or v_max''"

abbreviation InvalidParameters :: error where
  "InvalidParameters \<equiv> ValueError ''Number of dimentions in parameters does not match''"

abbreviation ProfileInfeasible :: error where
  "ProfileInfeasible \<equiv> PlanningError ''Failed to plan trapezoidal profile''"

abbreviation SpeedExceeded :: error where
  "SpeedExceeded \<equiv> PlanningError ''Maximum speed exceeds bound''"

abbreviation NegativeTime :: error where
  "NegativeTime \<equiv> ValueError ''Time must be positive number''"

abbreviation TimeExceedsLimit :: error where
  "TimeExceedsLimit \<equiv> ValueError ''Time exceeds limit''"


section \<open>Parameter validation\<close>

text \<open>
  \<^verbatim>\<open>check_profile_params\<close>. The two limits may be \<^verbatim>\<open>None\<close>. The chained comparison
  \<^verbatim>\<open>len(x) == len(y) == ... == len(v_max)\<close> evaluates from the left and stops at the
  first unequal pair, so \<^verbatim>\<open>len\<close> of a missing limit is only reached (and raises
  \<^verbatim>\<open>TypeError\<close>) when all lengths before it agree.
\<close>

definition check_profile_params ::
  "real list \<Rightarrow> real list \<Rightarrow> real list \<Rightarrow> real list \<Rightarrow>
   real list option \<Rightarrow> real list option \<Rightarrow> error + nat" where
  "check_profile_params x y v0 a0 a_max v_max =
     (if a_max = None \<and> v_max = None then Inl MissingLimit
      else if length x \<noteq> length y then Inl InvalidParameters
      else if length y \<noteq> length v0 then Inl InvalidParameters
      else if length v0 \<noteq> length a0 then Inl InvalidParameters
      else (case a_max of
        None \<Rightarrow> Inl TypeError
      | Some am \<Rightarrow>
          if length a0 \<noteq> length am then Inl InvalidParameters
          else (case v_max of
            None \<Rightarrow> Inl TypeError
          | Some vm \<Rightarrow>
              if length am \<noteq> length vm then Inl InvalidParameters
              else Inr (length x))))"


section \<open>The planners\<close>

text \<open>A planned profile is the tuple \<^verbatim>\<open>(t, ta, tc, sa, sc, vc)\<close> the planners return.\<close>

type_synonym profile = "fl \<times> fl \<times> fl \<times> fl \<times> fl \<times> fl"

text \<open>
  \<^verbatim>\<open>trapezoidal_planner\<close> computes on Python floats: both divisions raise
  \<^verbatim>\<open>ZeroDivisionError\<close> on a zero divisor, the second one only after the guard, and
  \<^verbatim>\<open>ta**2\<close> raises \<^verbatim>\<open>OverflowError\<close> when it overflows.
\<close>

definition trapezoidal_planner ::
  "real \<Rightarrow> real \<Rightarrow> real \<Rightarrow> real \<Rightarrow> real \<Rightarrow> real \<Rightarrow> error + profile" where
  "trapezoidal_planner x y v0 a0 v_max a_max =
     (if a_max = 0 then Inl ZeroDivisionError
      else
        let ta = (v_max - v0) / a_max;
            sa = a_max * ta\<^sup>2 / 2 + v0 * ta
        in if pow2_overflows ta then Inl OverflowError
           else if y - x < 2 * sa then Inl ProfileInfeasible
           else if v_max = 0 then Inl ZeroDivisionError
           else
             let t = (y - x - a_max * ta\<^sup>2 - 2 * v0 * ta) / v_max + 2 * ta;
                 tc = t - 2 * ta;
                 sc = tc * v_max + 0;
                 vc = v_max
             in Inr (Fin t, Fin ta, Fin tc, Fin sa, Fin sc, Fin vc))"

text \<open>
  \<^verbatim>\<open>minimum_time_planner\<close>: the argument of \<^verbatim>\<open>np.sqrt\<close> is computed on Python
  floats, where \<^verbatim>\<open>v0**2\<close> raises \<^verbatim>\<open>OverflowError\<close> when it overflows. From
  \<^verbatim>\<open>D = np.sqrt(...)\<close> on, every value is a \<^verbatim>\<open>float64\<close>, and nothing raises but the
  guard on the peak speed. The local variable \<^verbatim>\<open>_v_max\<close> of the source is \<open>v_peak\<close>
  here.
\<close>

definition minimum_time_planner ::
  "real \<Rightarrow> real \<Rightarrow> real \<Rightarrow> real \<Rightarrow> real \<Rightarrow> real \<Rightarrow> error + profile" where
  "minimum_time_planner x y v0 a0 v_max a_max =
     (if pow2_overflows v0 then Inl OverflowError
      else
      let a = a_max;
          D = fsqrt (Fin (v0\<^sup>2 + (y - x) * a_max));
          denom = half a_max;
          t1 = fdiv (fadd (Fin (- v0)) D) (Fin denom);
          t2 = fdiv (fsub (Fin (- v0)) D) (Fin denom);
          t = fmax t1 t2;
          ta = fmul (Fin (1 / 2)) t;
          tc = Fin 0;
          sa = fadd (fmul (Fin v0) ta) (fdiv (fmul (Fin a) (fpow2 ta)) (Fin 2));
          sc = Fin 0;
          v_peak = fadd (Fin v0) (fmul (Fin a) ta)
      in if flt (Fin v_max) v_peak then Inl SpeedExceeded
         else Inr (t, ta, tc, sa, sc, v_peak))"


section \<open>The orchestrator\<close>

text \<open>
  The body of the planning loop of \<^verbatim>\<open>trapezoidal_profile\<close> for one degree of freedom:
  the minimum-time planner first, and the trapezoidal planner when that raises a
  \<^verbatim>\<open>PlanningError\<close>. Any error of the trapezoidal planner propagates.
\<close>

definition plan_axis ::
  "real \<Rightarrow> real \<Rightarrow> real \<Rightarrow> real \<Rightarrow> real \<Rightarrow> real \<Rightarrow> error + profile" where
  "plan_axis x y v0 a0 v_max a_max =
     (case minimum_time_planner x y v0 a0 v_max a_max of
        Inr params \<Rightarrow> Inr params
      | Inl (PlanningError msg) \<Rightarrow> trapezoidal_planner x y v0 a0 v_max a_max
      | Inl e \<Rightarrow> Inl e)"

text \<open>
  The six result lists \<^verbatim>\<open>[T, TA, TC, SA, SC, VC]\<close>, and the loop
  \<^verbatim>\<open>for i in range(dof)\<close> that appends one value to each. The lists were checked to
  have \<^verbatim>\<open>dof\<close> elements, so the reads \<^verbatim>\<open>x[i]\<close> are in range.
\<close>

type_synonym params = "fl list \<times> fl list \<times> fl list \<times> fl list \<times> fl list \<times> fl list"

fun plan_loop ::
  "real list \<Rightarrow> real list \<Rightarrow> real list \<Rightarrow> real list \<Rightarrow> real list \<Rightarrow> real list \<Rightarrow>
   nat list \<Rightarrow> params \<Rightarrow> error + params" where
  "plan_loop x y v0 a0 v_max a_max [] ps = Inr ps"
| "plan_loop x y v0 a0 v_max a_max (i # is) (T, TA, TC, SA, SC, VC) =
     (case plan_axis (x ! i) (y ! i) (v0 ! i) (a0 ! i) (v_max ! i) (a_max ! i) of
        Inl e \<Rightarrow> Inl e
      | Inr (t, ta, tc, sa, sc, vc) \<Rightarrow>
          plan_loop x y v0 a0 v_max a_max is
            (T @ [t], TA @ [ta], TC @ [tc], SA @ [sa], SC @ [sc], VC @ [vc]))"

definition trajectory_params ::
  "real list \<Rightarrow> real list \<Rightarrow> real list \<Rightarrow> real list \<Rightarrow> real list \<Rightarrow> real list \<Rightarrow>
   nat \<Rightarrow> error + params" where
  "trajectory_params x y v0 a0 v_max a_max dof =
     plan_loop x y v0 a0 v_max a_max [0..<dof] ([], [], [], [], [], [])"


section \<open>The evaluator\<close>

text \<open>A sample is the row \<^verbatim>\<open>(acceleration, speed, position)\<close> of one degree of freedom.\<close>

type_synonym point = "fl \<times> fl \<times> fl"

text \<open>
  The body of the loop of \<^verbatim>\<open>trajectory\<close>: the \<^verbatim>\<open>if\<close>/\<^verbatim>\<open>elif\<close> chain on the query
  time, in the order of the source, for one degree of freedom. The query time \<^verbatim>\<open>_t\<close> of
  the source is \<open>tq\<close> here. The last branch is reached when a comparison involves NaN.
  In the acceleration branch \<^verbatim>\<open>_t**2\<close> is the square of a Python float and can raise.
  The square of the deceleration branch is taken as that of a \<^verbatim>\<open>float64\<close>, which does
  not raise, as it is for a minimum-time profile; a trapezoidal profile holds Python
  floats, whose square there could raise for a ramp time next to \<open>2 ^ 512\<close>, and this is
  not modelled.
\<close>

definition trajectory_point ::
  "real \<Rightarrow> real \<Rightarrow> real \<Rightarrow> real \<Rightarrow> real \<Rightarrow> real \<Rightarrow> profile \<Rightarrow> real \<Rightarrow> error + point" where
  "trajectory_point x y v0 a0 v_max a_max p tq =
     (case p of (t, ta, tc, sa, sc, vc) \<Rightarrow>
        if tq = 0 then Inr (Fin a0, Fin v0, Fin x)
        else if 0 < tq \<and> fle (Fin tq) ta then
          (if pow2_overflows tq then Inl OverflowError
           else Inr (Fin a_max, Fin (a_max * tq + v0), Fin (x + a_max * tq\<^sup>2 / 2 + v0 * tq)))
        else if fle ta (Fin tq) \<and> flt (Fin tq) (fadd ta tc) then
          Inr (Fin 0, Fin v_max, fadd (fadd (Fin x) sa) (fmul vc (fsub (Fin tq) ta)))
        else if fle (fadd ta tc) (Fin tq) \<and> flt (Fin tq) t then
          (let u = fsub (fsub (Fin tq) ta) tc
           in Inr (Fin (- a_max),
                   fsub vc (fmul (Fin a_max) u),
                   fadd (fsub (fadd (fadd (Fin x) sa) sc)
                              (fdiv (fmul (Fin a_max) (fpow2 u)) (Fin 2)))
                        (fmul vc u)))
        else if fle t (Fin tq) then Inr (Fin a0, Fin v0, Fin y)
        else Inl TimeExceedsLimit)"

text \<open>
  The loop over \<^verbatim>\<open>zip(range(dof), T, TA, TC, SA, SC, VC)\<close>, writing row \<^verbatim>\<open>i\<close> of the
  array \<^verbatim>\<open>point\<close>; it stops at the first row that raises.
\<close>

fun trajectory_loop ::
  "real list \<Rightarrow> real list \<Rightarrow> real list \<Rightarrow> real list \<Rightarrow> real list \<Rightarrow> real list \<Rightarrow>
   real \<Rightarrow> (nat \<times> profile) list \<Rightarrow> point list \<Rightarrow> error + point list" where
  "trajectory_loop x y v0 a0 v_max a_max tq [] point = Inr point"
| "trajectory_loop x y v0 a0 v_max a_max tq ((i, p) # rows) point =
     (case trajectory_point (x ! i) (y ! i) (v0 ! i) (a0 ! i) (v_max ! i) (a_max ! i) p tq of
        Inl e \<Rightarrow> Inl e
      | Inr r \<Rightarrow> trajectory_loop x y v0 a0 v_max a_max tq rows (point[i := r]))"

text \<open>
  The closure \<^verbatim>\<open>trajectory\<close>, with the variables it captures as arguments;
  \<^verbatim>\<open>np.zeros((dof, 3))\<close> is the initial array.
\<close>

definition trajectory ::
  "nat \<Rightarrow> real list \<Rightarrow> real list \<Rightarrow> real list \<Rightarrow> real list \<Rightarrow> real list \<Rightarrow> real list \<Rightarrow>
   params \<Rightarrow> real \<Rightarrow> error + point list" where
  "trajectory dof x y v0 a0 v_max a_max ps tq =
     (case ps of (T, TA, TC, SA, SC, VC) \<Rightarrow>
        if tq < 0 then Inl NegativeTime
        else trajectory_loop x y v0 a0 v_max a_max tq
               (zip [0..<dof] (zip T (zip TA (zip TC (zip SA (zip SC VC))))))
               (replicate dof (Fin 0, Fin 0, Fin 0)))"

text \<open>
  \<^verbatim>\<open>trapezoidal_profile\<close> returns the number of degrees of freedom, the list of
  durations and the closure. It passes \<^verbatim>\<open>v_max\<close> and \<^verbatim>\<open>a_max\<close> to the validator in
  the order \<^verbatim>\<open>(v_max, a_max)\<close>. After the validator has returned, neither limit is
  \<^verbatim>\<open>None\<close>; subscripting \<^verbatim>\<open>None\<close> would raise \<^verbatim>\<open>TypeError\<close>.
\<close>

definition trapezoidal_profile ::
  "real list \<Rightarrow> real list \<Rightarrow> real list \<Rightarrow> real list \<Rightarrow>
   real list option \<Rightarrow> real list option \<Rightarrow>
   error + (nat \<times> fl list \<times> (real \<Rightarrow> error + point list))" where
  "trapezoidal_profile x y v0 a0 v_max a_max =
     (case check_profile_params x y v0 a0 v_max a_max of
        Inl e \<Rightarrow> Inl e
      | Inr dof \<Rightarrow>
          (case (v_max, a_max) of
             (Some vm, Some am) \<Rightarrow>
               (case trajectory_params x y v0 a0 vm am dof of
                  Inl e \<Rightarrow> Inl e
                | Inr ps \<Rightarrow> Inr (dof, fst ps, trajectory dof x y v0 a0 vm am ps))
           | _ \<Rightarrow> Inl TypeError))"


section \<open>The events of the arithmetic on ordinary values\<close>

lemma small_no_overflow: "\<bar>v\<bar> \<le> 1024 \<Longrightarrow> \<not> pow2_overflows v"
proof -
  assume a: "\<bar>v\<bar> \<le> 1024"
  have "(2::real) ^ 10 < 2 ^ 512" by (rule power_strict_increasing) simp_all
  then have "(1024::real) < 2 ^ 512" by simp
  then show ?thesis using a by (simp add: pow2_overflows_def)
qed

lemma tiny_lt_one: "(1::real) / 2 ^ 1074 < 1"
proof -
  have "(1::real) < 2 ^ 1074" by (rule one_less_power) simp_all
  then show ?thesis by simp
qed

lemma half_ordinary: "1 \<le> \<bar>a\<bar> \<Longrightarrow> half a = a / 2"
  using tiny_lt_one by (simp add: half_def)

lemma half_pos: "1 / 2 ^ 1074 < a \<Longrightarrow> 0 < half a"
proof -
  assume a: "1 / 2 ^ 1074 < a"
  have "(0::real) < 1 / 2 ^ 1074" by simp
  then have "0 < a" using a by linarith
  then show ?thesis using a by (simp add: half_def)
qed

lemma half_nonneg: "0 \<le> a \<Longrightarrow> 0 \<le> half a"
  by (simp add: half_def)

lemmas mtp_simps = minimum_time_planner_def Let_def fsub_def fmax_def fpow2_def
  small_no_overflow half_ordinary


section \<open>The minimum-time planner\<close>

text \<open>
  C9, as stated, fails for the smallest positive float \<open>a_max = 1 / 2 ^ 1074\<close>: its half
  \<^verbatim>\<open>a_max/2.\<close> is zero, both roots are \<open>0/0\<close>, and the planner returns NaN for the
  duration, the ramp time, the ramp distance and the peak speed.
\<close>

theorem minimum_time_planner_zero_move_nan:
  "minimum_time_planner 0 0 0 0 1 (1 / 2 ^ 1074) = Inr (NaN, NaN, Fin 0, NaN, Fin 0, NaN)
   \<and> (0::real) < 1 / 2 ^ 1074 \<and> (0::real) < 1"
  by (simp add: minimum_time_planner_def Let_def fsub_def fmax_def fpow2_def small_no_overflow
        half_def inf_of_sign_def)

text \<open>
  C9, amended. With \<open>y = x\<close> and \<open>v0 = 0\<close>, a positive \<open>v_max\<close> and an \<open>a_max\<close> above the
  smallest positive float (so that \<^verbatim>\<open>a_max/2.\<close> is not zero), the minimum-time planner
  succeeds and returns the degenerate profile: total duration 0, ramp time 0, ramp
  distance 0 and peak speed 0, all finite.
\<close>

theorem minimum_time_planner_zero_move:
  assumes "1 / 2 ^ 1074 < a_max" and "0 < v_max"
  shows "minimum_time_planner x x 0 a0 v_max a_max
           = Inr (Fin 0, Fin 0, Fin 0, Fin 0, Fin 0, Fin 0)"
proof -
  have h: "half a_max \<noteq> 0" using half_pos [OF assms(1)] by simp
  show ?thesis using assms(2) h
    by (simp add: minimum_time_planner_def Let_def fsub_def fmax_def fpow2_def small_no_overflow)
qed

theorem minimum_time_planner_zero_move_witness:
  "(1::real) / 2 ^ 1074 < 2 \<and> (0::real) < 3 \<and>
   minimum_time_planner 7 7 0 1 3 2 = Inr (Fin 0, Fin 0, Fin 0, Fin 0, Fin 0, Fin 0)"
proof -
  have h: "(1::real) / 2 ^ 1074 < 2" using tiny_lt_one by linarith
  show ?thesis using minimum_time_planner_zero_move [OF h, of 3 7 1] h by simp
qed

text \<open>The planner fails in two ways only, and what it returns is computed from the
  duration \<open>t\<close>; the limit \<open>v_max\<close> enters the guard alone.\<close>

lemma minimum_time_planner_errors:
  "minimum_time_planner x y v0 a0 v_max a_max = Inl e \<Longrightarrow> e = OverflowError \<or> e = SpeedExceeded"
  by (auto simp: minimum_time_planner_def Let_def split: if_splits)


lemma minimum_time_planner_result:
  assumes "minimum_time_planner x y v0 a0 v_max a_max = Inr (t, ta, tc, sa, sc, vc)"
  shows "ta = fmul (Fin (1 / 2)) t" and "tc = Fin 0" and "sc = Fin 0"
    and "sa = fadd (fmul (Fin v0) ta) (fdiv (fmul (Fin a_max) (fpow2 ta)) (Fin 2))"
    and "vc = fadd (Fin v0) (fmul (Fin a_max) ta)"
    and "\<not> flt (Fin v_max) vc"
    and "\<not> pow2_overflows v0"
    and "t = fmax (fdiv (fadd (Fin (- v0)) (fsqrt (Fin (v0\<^sup>2 + (y - x) * a_max)))) (Fin (half a_max)))
                  (fdiv (fsub (Fin (- v0)) (fsqrt (Fin (v0\<^sup>2 + (y - x) * a_max)))) (Fin (half a_max)))"
  using assms by (auto simp: minimum_time_planner_def Let_def split: if_splits)





lemma scenario_b_minimum_time:
  "minimum_time_planner 0 2 0 0 3 2 = Inr (Fin 2, Fin 1, Fin 0, Fin 1, Fin 0, Fin 2)"
  by (simp add: mtp_simps)



section \<open>The trapezoidal planner\<close>


lemma trapezoidal_planner_result:
  assumes "trapezoidal_planner x y v0 a0 v_max a_max = Inr (t, ta, tc, sa, sc, vc)"
  shows "\<exists>rt rta rtc rsa.
           t = Fin rt \<and> ta = Fin rta \<and> tc = Fin rtc \<and> sa = Fin rsa
         \<and> sc = Fin (rtc * v_max) \<and> vc = Fin v_max
         \<and> rta = (v_max - v0) / a_max \<and> rsa = a_max * rta\<^sup>2 / 2 + v0 * rta
         \<and> rt = (y - x - a_max * rta\<^sup>2 - 2 * v0 * rta) / v_max + 2 * rta
         \<and> rtc = rt - 2 * rta
         \<and> \<not> y - x < 2 * rsa \<and> \<not> pow2_overflows rta \<and> a_max \<noteq> 0 \<and> v_max \<noteq> 0"
  using assms by (auto simp: trapezoidal_planner_def Let_def split: if_splits)



lemma cruise_example_trapezoidal:
  "trapezoidal_planner 0 8 0 0 3 2
     = Inr (Fin (25/6), Fin (3/2), Fin (7/6), Fin (9/4), Fin (7/2), Fin 3)"
  by (simp add: trapezoidal_planner_def Let_def power2_eq_square small_no_overflow)



section \<open>The duration invariant\<close>

text \<open>
  C4, as stated, fails: the minimum-time planner returns a negative duration for a move
  backwards that starts with a positive speed. Here \<open>D = sqrt (4 - 3) = 1\<close> and
  \<open>t = max (- 2) (- 6) = - 2\<close>, and the peak speed 1 is within the limit 5.
\<close>

theorem minimum_time_planner_negative_duration:
  "minimum_time_planner 0 (- 3) 2 0 5 1
     = Inr (Fin (- 2), Fin (- 1), Fin 0, Fin (- (3 / 2)), Fin 0, Fin 1)
   \<and> \<not> fle (Fin 0) (Fin (- 2))"
  by (simp add: mtp_simps)

text \<open>Dividing by a divisor that is not negative keeps the order of the numerators.\<close>

lemma fdiv_keeps_order:
  assumes "0 \<le> h" and "n1 \<le> n2"
  shows "\<not> flt (fdiv (Fin n2) (Fin h)) (fdiv (Fin n1) (Fin h))"
    and "fdiv (Fin n1) (Fin h) \<noteq> NaN \<Longrightarrow> fdiv (Fin n2) (Fin h) \<noteq> NaN \<Longrightarrow>
           fle (fdiv (Fin n1) (Fin h)) (fdiv (Fin n2) (Fin h))"
proof -
  have q: "n1 / h \<le> n2 / h" by (rule divide_right_mono [OF assms(2) assms(1)])
  show "\<not> flt (fdiv (Fin n2) (Fin h)) (fdiv (Fin n1) (Fin h))"
  proof (cases "h = 0")
    case True
    then show ?thesis using assms(2) by (auto simp: inf_of_sign_def)
  next
    case False
    then show ?thesis using q by simp
  qed
  show "fdiv (Fin n1) (Fin h) \<noteq> NaN \<Longrightarrow> fdiv (Fin n2) (Fin h) \<noteq> NaN \<Longrightarrow>
           fle (fdiv (Fin n1) (Fin h)) (fdiv (Fin n2) (Fin h))"
  proof (cases "h = 0")
    case True
    then show "fdiv (Fin n1) (Fin h) \<noteq> NaN \<Longrightarrow> fdiv (Fin n2) (Fin h) \<noteq> NaN \<Longrightarrow>
           fle (fdiv (Fin n1) (Fin h)) (fdiv (Fin n2) (Fin h))"
      using assms(2) by (auto simp: inf_of_sign_def split: if_splits)
  next
    case False
    then show "fle (fdiv (Fin n1) (Fin h)) (fdiv (Fin n2) (Fin h))" using q by simp
  qed
qed

text \<open>When the duration is a number, the radicand is not negative and the duration is
  the root with \<open>+ D\<close>.\<close>

lemma minimum_time_planner_duration:
  assumes "0 \<le> a_max"
    and "minimum_time_planner x y v0 a0 v_max a_max = Inr (t, ta, tc, sa, sc, vc)"
    and "t \<noteq> NaN"
  shows "0 \<le> v0\<^sup>2 + (y - x) * a_max"
    and "t = fdiv (Fin (- v0 + sqrt (v0\<^sup>2 + (y - x) * a_max))) (Fin (half a_max))"
proof -
  let ?r = "v0\<^sup>2 + (y - x) * a_max"
  note t = minimum_time_planner_result(8) [OF assms(2)]
  show r: "0 \<le> ?r"
  proof (rule ccontr)
    assume "\<not> 0 \<le> ?r"
    then have "t = NaN" using t by (simp add: fsub_def fmax_def)
    then show False using assms(3) by simp
  qed
  have s: "0 \<le> sqrt ?r" using r by simp
  have h: "0 \<le> half a_max" using assms(1) by (rule half_nonneg)
  have "\<not> flt (fdiv (Fin (- v0 + sqrt ?r)) (Fin (half a_max)))
             (fdiv (Fin (- v0 - sqrt ?r)) (Fin (half a_max)))"
    using s by (intro fdiv_keeps_order(1) [OF h]) simp
  then show "t = fdiv (Fin (- v0 + sqrt ?r)) (Fin (half a_max))"
    using t r by (simp add: fsub_def fmax_def)
qed

text \<open>
  C4, amended. Every profile a planner returns with finite \<open>t\<close>, \<open>ta\<close> and \<open>tc\<close>
  satisfies \<open>t = 2 * ta + tc\<close>. The duration of a profile the minimum-time planner returns
  is not negative when \<open>a_max > 0\<close>, the initial speed \<open>v0\<close> is not positive and the duration
  is a number. For a positive \<open>v0\<close>, and for the trapezoidal planner, the sign of the
  duration is not stated: at the boundary it is decided by the rounding of the
  floating-point operations.
\<close>

theorem planner_duration_invariant:
  "(trapezoidal_planner x y v0 a0 v_max a_max = Inr (Fin t, Fin ta, Fin tc, sa, sc, vc) \<longrightarrow>
      t = 2 * ta + tc)
   \<and> (minimum_time_planner x y v0 a0 v_max a_max = Inr (Fin t', Fin ta', Fin tc', sa', sc', vc') \<longrightarrow>
      t' = 2 * ta' + tc')
   \<and> (minimum_time_planner x y v0 a0 v_max a_max = Inr (d, da, dc, dsa, dsc, dvc) \<longrightarrow>
      0 < a_max \<longrightarrow> v0 \<le> 0 \<longrightarrow> d \<noteq> NaN \<longrightarrow> fle (Fin 0) d)"
proof (intro conjI impI)
  assume "trapezoidal_planner x y v0 a0 v_max a_max = Inr (Fin t, Fin ta, Fin tc, sa, sc, vc)"
  from trapezoidal_planner_result [OF this] show "t = 2 * ta + tc" by auto
next
  assume "minimum_time_planner x y v0 a0 v_max a_max = Inr (Fin t', Fin ta', Fin tc', sa', sc', vc')"
  from minimum_time_planner_result(1,2) [OF this] show "t' = 2 * ta' + tc'" by simp
next
  assume r: "minimum_time_planner x y v0 a0 v_max a_max = Inr (d, da, dc, dsa, dsc, dvc)"
    and a: "0 < a_max" and v: "v0 \<le> 0" and n: "d \<noteq> NaN"
  have a': "0 \<le> a_max" using a by simp
  note rad = minimum_time_planner_duration(1) [OF a' r n]
  note d = minimum_time_planner_duration(2) [OF a' r n]
  have "0 \<le> sqrt (v0\<^sup>2 + (y - x) * a_max)" using rad by simp
  then have s: "0 \<le> - v0 + sqrt (v0\<^sup>2 + (y - x) * a_max)" using v by linarith
  have h: "0 \<le> half a_max" using a' by (rule half_nonneg)
  show "fle (Fin 0) d"
    using n s h unfolding d by (auto simp: inf_of_sign_def split: if_splits)
qed

lemma boundary_trapezoidal:
  "trapezoidal_planner 0 2 0 0 2 2 = Inr (Fin 2, Fin 1, Fin 0, Fin 1, Fin 0, Fin 2)"
  by (simp add: trapezoidal_planner_def Let_def power2_eq_square small_no_overflow)

lemma boundary_minimum_time:
  "minimum_time_planner 0 2 0 0 2 2 = Inr (Fin 2, Fin 1, Fin 0, Fin 1, Fin 0, Fin 2)"
  by (simp add: mtp_simps)

theorem planner_duration_invariant_witness:
  "trapezoidal_planner 0 2 0 0 2 2 = Inr (Fin 2, Fin 1, Fin 0, Fin 1, Fin 0, Fin 2)
   \<and> minimum_time_planner 0 2 0 0 2 2 = Inr (Fin 2, Fin 1, Fin 0, Fin 1, Fin 0, Fin 2)
   \<and> (0::real) < 2 \<and> (0::real) \<le> 0 \<and> Fin 2 \<noteq> NaN
   \<and> (2::real) = 2 * 1 + 0 \<and> fle (Fin 0) (Fin 2)"
  using planner_duration_invariant [of 0 2 0 0 2 2 2 1 0 "Fin 1" "Fin 0" "Fin 2" 2 1 0
      "Fin 1" "Fin 0" "Fin 2" "Fin 2" "Fin 1" "Fin 0" "Fin 1" "Fin 0" "Fin 2"]
    boundary_trapezoidal boundary_minimum_time
  by simp


section \<open>The planning step for one axis\<close>

text \<open>A plan comes from the minimum-time planner, or from the trapezoidal planner after
  the minimum-time planner has failed with SpeedExceeded.\<close>

lemma plan_axis_cases:
  assumes "plan_axis x y v0 a0 v_max a_max = Inr p"
  shows "minimum_time_planner x y v0 a0 v_max a_max = Inr p
       \<or> (minimum_time_planner x y v0 a0 v_max a_max = Inl SpeedExceeded
          \<and> trapezoidal_planner x y v0 a0 v_max a_max = Inr p)"
proof (cases "minimum_time_planner x y v0 a0 v_max a_max")
  case (Inr q)
  then show ?thesis using assms by (simp add: plan_axis_def)
next
  case (Inl e)
  from minimum_time_planner_errors [OF Inl] show ?thesis
  proof
    assume "e = OverflowError"
    then show ?thesis using Inl assms by (simp add: plan_axis_def)
  next
    assume "e = SpeedExceeded"
    then show ?thesis using Inl assms by (simp add: plan_axis_def)
  qed
qed

lemma minimum_time_planner_mono:
  assumes "0 < a_max" and "y1 - x1 \<le> y2 - x2"
    and "minimum_time_planner x1 y1 v0 a0 v_max a_max = Inr (t1, ta1, tc1, sa1, sc1, vc1)"
    and "minimum_time_planner x2 y2 v0 a0 v_max a_max = Inr (t2, ta2, tc2, sa2, sc2, vc2)"
    and "t1 \<noteq> NaN" and "t2 \<noteq> NaN"
  shows "fle t1 t2"
proof -
  have a: "0 \<le> a_max" using assms(1) by simp
  let ?r1 = "v0\<^sup>2 + (y1 - x1) * a_max" and ?r2 = "v0\<^sup>2 + (y2 - x2) * a_max"
  note e1 = minimum_time_planner_duration(2) [OF a assms(3,5)]
  note e2 = minimum_time_planner_duration(2) [OF a assms(4,6)]
  have "(y1 - x1) * a_max \<le> (y2 - x2) * a_max"
    using assms(1,2) by (simp add: mult_right_mono)
  then have "sqrt ?r1 \<le> sqrt ?r2" by simp
  then have n: "- v0 + sqrt ?r1 \<le> - v0 + sqrt ?r2" by simp
  show ?thesis
    using fdiv_keeps_order(2) [OF half_nonneg [OF a] n] assms(5,6)
    unfolding e1 e2 by blast
qed

lemma trapezoidal_planner_mono:
  assumes "0 < v_max" and "y1 - x1 \<le> y2 - x2"
    and "trapezoidal_planner x1 y1 v0 a0 v_max a_max = Inr (t1, ta1, tc1, sa1, sc1, vc1)"
    and "trapezoidal_planner x2 y2 v0 a0 v_max a_max = Inr (t2, ta2, tc2, sa2, sc2, vc2)"
  shows "fle t1 t2"
proof -
  let ?ta = "(v_max - v0) / a_max"
  from trapezoidal_planner_result [OF assms(3)]
  have t1: "t1 = Fin ((y1 - x1 - a_max * ?ta\<^sup>2 - 2 * v0 * ?ta) / v_max + 2 * ?ta)" by auto
  from trapezoidal_planner_result [OF assms(4)]
  have t2: "t2 = Fin ((y2 - x2 - a_max * ?ta\<^sup>2 - 2 * v0 * ?ta) / v_max + 2 * ?ta)" by auto
  have "y1 - x1 - a_max * ?ta\<^sup>2 - 2 * v0 * ?ta \<le> y2 - x2 - a_max * ?ta\<^sup>2 - 2 * v0 * ?ta"
    using assms(2) by simp
  then have "(y1 - x1 - a_max * ?ta\<^sup>2 - 2 * v0 * ?ta) / v_max
           \<le> (y2 - x2 - a_max * ?ta\<^sup>2 - 2 * v0 * ?ta) / v_max"
    using assms(1) by (intro divide_right_mono) simp_all
  then show ?thesis unfolding t1 t2 by simp
qed

text \<open>
  C7, as stated, fails where the radicand of the shorter move is negative: planning
  returns without an error, the duration is NaN, and NaN is not \<open>\<le>\<close> any duration.
\<close>

theorem plan_axis_nan_duration:
  "plan_axis 0 (- 1) 0 0 1 1 = Inr (NaN, NaN, Fin 0, NaN, Fin 0, NaN)
   \<and> plan_axis 0 0 0 0 1 1 = Inr (Fin 0, Fin 0, Fin 0, Fin 0, Fin 0, Fin 0)
   \<and> (- 1 :: real) - 0 \<le> 0 - 0
   \<and> \<not> fle NaN (Fin 0)"
  by (simp add: plan_axis_def mtp_simps)

text \<open>
  C7, amended. For two single-axis inputs with the same \<open>v0\<close>, \<open>a0\<close>, \<open>v_max > 0\<close> and
  \<open>a_max > 0\<close>, both planned, by the same planner (the minimum-time planner returns for
  both, or fails for both so that both come from the trapezoidal planner), with durations
  that are numbers: if the travel distance of the first is at most that of the second, its
  duration is at most that of the second. Across the switch from one planner to the other
  the two durations agree at the boundary only in exact arithmetic, and their order is
  not stated.
\<close>

theorem plan_axis_duration_mono:
  assumes "0 < v_max" and "0 < a_max" and "y1 - x1 \<le> y2 - x2"
    and "plan_axis x1 y1 v0 a0 v_max a_max = Inr (t1, ta1, tc1, sa1, sc1, vc1)"
    and "plan_axis x2 y2 v0 a0 v_max a_max = Inr (t2, ta2, tc2, sa2, sc2, vc2)"
    and "t1 \<noteq> NaN" and "t2 \<noteq> NaN"
    and "(\<exists>q. minimum_time_planner x1 y1 v0 a0 v_max a_max = Inr q)
           = (\<exists>q. minimum_time_planner x2 y2 v0 a0 v_max a_max = Inr q)"
  shows "fle t1 t2"
proof -
  from plan_axis_cases [OF assms(4)] show ?thesis
  proof
    assume m1: "minimum_time_planner x1 y1 v0 a0 v_max a_max = Inr (t1, ta1, tc1, sa1, sc1, vc1)"
    then obtain q where q: "minimum_time_planner x2 y2 v0 a0 v_max a_max = Inr q"
      using assms(8) by blast
    then have "minimum_time_planner x2 y2 v0 a0 v_max a_max = Inr (t2, ta2, tc2, sa2, sc2, vc2)"
      using plan_axis_cases [OF assms(5)] by auto
    then show ?thesis
      using minimum_time_planner_mono [OF assms(2,3) m1 _ assms(6,7)] by blast
  next
    assume f1: "minimum_time_planner x1 y1 v0 a0 v_max a_max = Inl SpeedExceeded
              \<and> trapezoidal_planner x1 y1 v0 a0 v_max a_max = Inr (t1, ta1, tc1, sa1, sc1, vc1)"
    then have "\<not> (\<exists>q. minimum_time_planner x2 y2 v0 a0 v_max a_max = Inr q)"
      using assms(8) by auto
    then have "trapezoidal_planner x2 y2 v0 a0 v_max a_max = Inr (t2, ta2, tc2, sa2, sc2, vc2)"
      using plan_axis_cases [OF assms(5)] by auto
    then show ?thesis
      using trapezoidal_planner_mono [OF assms(1,3)] f1 by blast
  qed
qed

lemma sqrt9: "sqrt 9 = 3"
  by (rule real_sqrt_unique) auto

lemma scenario_b_axis:
  "plan_axis 0 2 0 0 3 2 = Inr (Fin 2, Fin 1, Fin 0, Fin 1, Fin 0, Fin 2)"
  by (simp add: plan_axis_def mtp_simps)

lemma longer_minimum_time:
  "minimum_time_planner 0 (9/2) 0 0 3 2 = Inr (Fin 3, Fin (3/2), Fin 0, Fin (9/4), Fin 0, Fin 3)"
  by (simp add: mtp_simps sqrt9 power2_eq_square)

theorem plan_axis_duration_mono_witness:
  "(0::real) < 3 \<and> (0::real) < 2 \<and> (2::real) - 0 \<le> 9/2 - 0
   \<and> plan_axis 0 2 0 0 3 2 = Inr (Fin 2, Fin 1, Fin 0, Fin 1, Fin 0, Fin 2)
   \<and> plan_axis 0 (9/2) 0 0 3 2 = Inr (Fin 3, Fin (3/2), Fin 0, Fin (9/4), Fin 0, Fin 3)
   \<and> Fin 2 \<noteq> NaN \<and> Fin 3 \<noteq> NaN
   \<and> minimum_time_planner 0 2 0 0 3 2 = Inr (Fin 2, Fin 1, Fin 0, Fin 1, Fin 0, Fin 2)
   \<and> minimum_time_planner 0 (9/2) 0 0 3 2 = Inr (Fin 3, Fin (3/2), Fin 0, Fin (9/4), Fin 0, Fin 3)
   \<and> fle (Fin 2) (Fin 3)"
proof -
  have p2: "plan_axis 0 (9/2) 0 0 3 2 = Inr (Fin 3, Fin (3/2), Fin 0, Fin (9/4), Fin 0, Fin 3)"
    by (simp add: plan_axis_def longer_minimum_time)
  have s: "(\<exists>q. minimum_time_planner 0 2 0 0 3 2 = Inr q)
         = (\<exists>q. minimum_time_planner 0 (9/2) 0 0 3 2 = Inr q)"
    using scenario_b_minimum_time longer_minimum_time by simp
  have "fle (Fin 2) (Fin 3)"
    by (rule plan_axis_duration_mono [OF _ _ _ scenario_b_axis p2 _ _ s]) simp_all
  then show ?thesis
    using scenario_b_axis p2 scenario_b_minimum_time longer_minimum_time by simp
qed


section \<open>The parameter validator\<close>

text \<open>
  C8. The validator is to accept the parameters when exactly one of the two limits is
  absent and all supplied lists have the same length. The code does not: the guard lets
  the call through, and the length comparison then takes \<^verbatim>\<open>len(None)\<close>, which raises
  \<^verbatim>\<open>TypeError\<close>.
\<close>

theorem check_profile_params_one_limit:
  "check_profile_params [0] [1] [0] [0] (Some [1]) None = Inl TypeError"
  by (simp add: check_profile_params_def)


section \<open>Scenario A\<close>

text \<open>The input \<open>x = 0\<close>, \<open>y = 10\<close>, \<open>v0 = 0\<close>, \<open>a0 = 0\<close>, \<open>v_max = 5\<close>, \<open>a_max = 2\<close>:
  the peak speed of the minimum-time profile is \<open>sqrt 20\<close>, which is below 5.\<close>

lemma sqrt20_le: "sqrt 20 \<le> 5"
  by (rule real_le_lsqrt) auto

lemma scenario_a_axis:
  "plan_axis 0 10 0 0 5 2 = Inr (Fin (sqrt 20), Fin (sqrt 20 / 2), Fin 0, Fin 5, Fin 0, Fin (sqrt 20))"
  using sqrt20_le by (simp add: plan_axis_def mtp_simps not_less power2_eq_square)

lemma scenario_a_params:
  "trajectory_params [0] [10] [0] [0] [5] [2] (Suc 0)
     = Inr ([Fin (sqrt 20)], [Fin (sqrt 20 / 2)], [Fin 0], [Fin 5], [Fin 0], [Fin (sqrt 20)])"
  by (simp add: trajectory_params_def scenario_a_axis)

text \<open>
  C6, as stated, fails: planning this input does not end with the error of the
  trapezoidal planner.
\<close>

theorem scenario_a_not_infeasible:
  "trapezoidal_profile [0] [10] [0] [0] (Some [5]) (Some [2]) \<noteq> Inl ProfileInfeasible"
  by (simp add: trapezoidal_profile_def check_profile_params_def scenario_a_params)

text \<open>
  C6, amended. For the single-axis input \<open>x = 0\<close>, \<open>y = 10\<close>, \<open>v0 = 0\<close>, \<open>a0 = 0\<close>,
  \<open>v_max = 5\<close>, \<open>a_max = 2\<close> the minimum-time planner succeeds, so there is no fallback:
  planning returns one degree of freedom, the duration \<open>sqrt 20\<close>, and the evaluator over
  the profile \<open>t = sqrt 20\<close>, \<open>ta = sqrt 20 / 2\<close>, \<open>tc = 0\<close>, \<open>sa = 5\<close>, \<open>sc = 0\<close>,
  \<open>vc = sqrt 20\<close>.
\<close>

theorem scenario_a_plan:
  "trapezoidal_profile [0] [10] [0] [0] (Some [5]) (Some [2])
     = Inr (1, [Fin (sqrt 20)],
            trajectory 1 [0] [10] [0] [0] [5] [2]
              ([Fin (sqrt 20)], [Fin (sqrt 20 / 2)], [Fin 0], [Fin 5], [Fin 0], [Fin (sqrt 20)]))"
  by (simp add: trapezoidal_profile_def check_profile_params_def scenario_a_params)


section \<open>The initial acceleration does not enter the planners\<close>

lemma minimum_time_planner_a0:
  "minimum_time_planner x y v0 a0 v_max a_max = minimum_time_planner x y v0 a0' v_max a_max"
  by (simp only: minimum_time_planner_def)

lemma trapezoidal_planner_a0:
  "trapezoidal_planner x y v0 a0 v_max a_max = trapezoidal_planner x y v0 a0' v_max a_max"
  by (simp only: trapezoidal_planner_def)

lemma plan_axis_a0: "plan_axis x y v0 a0 v_max a_max = plan_axis x y v0 a0' v_max a_max"
  unfolding plan_axis_def
    minimum_time_planner_a0 [of x y v0 a0 v_max a_max a0']
    trapezoidal_planner_a0 [of x y v0 a0 v_max a_max a0']
  by (rule refl)

lemma plan_loop_a0:
  "plan_loop x y v0 a0 v_max a_max is ps = plan_loop x y v0 a0' v_max a_max is ps"
proof (induction "is" arbitrary: ps)
  case Nil
  show ?case by simp
next
  case (Cons i "is")
  obtain T TA TC SA SC VC where ps: "ps = (T, TA, TC, SA, SC, VC)" by (cases ps) auto
  show ?case
    unfolding ps plan_loop.simps plan_axis_a0 [of _ _ _ "a0 ! i" _ _ "a0' ! i"]
    by (simp add: Cons.IH split: sum.splits)
qed


section \<open>What a planning run returns\<close>

text \<open>The six result lists are the columns of the list of planned profiles, one row for
  each degree of freedom, and zipping them gives the rows back.\<close>

lemma zip_columns:
  "zip (map fst ps) (zip (map (fst \<circ> snd) ps) (zip (map (fst \<circ> snd \<circ> snd) ps)
     (zip (map (fst \<circ> snd \<circ> snd \<circ> snd) ps) (zip (map (fst \<circ> snd \<circ> snd \<circ> snd \<circ> snd) ps)
        (map (snd \<circ> snd \<circ> snd \<circ> snd \<circ> snd) ps))))) = (ps :: profile list)"
  by (induction ps) auto

lemma plan_loop_rows:
  assumes "plan_loop x y v0 a0 v_max a_max is (T, TA, TC, SA, SC, VC) = Inr acc"
  shows "\<exists>ps. length ps = length is
           \<and> (\<forall>k<length is. plan_axis (x ! (is ! k)) (y ! (is ! k)) (v0 ! (is ! k)) (a0 ! (is ! k))
                   (v_max ! (is ! k)) (a_max ! (is ! k)) = Inr (ps ! k))
           \<and> acc = (T @ map fst ps, TA @ map (fst \<circ> snd) ps, TC @ map (fst \<circ> snd \<circ> snd) ps,
                    SA @ map (fst \<circ> snd \<circ> snd \<circ> snd) ps,
                    SC @ map (fst \<circ> snd \<circ> snd \<circ> snd \<circ> snd) ps,
                    VC @ map (snd \<circ> snd \<circ> snd \<circ> snd \<circ> snd) ps)"
  using assms
proof (induction "is" arbitrary: T TA TC SA SC VC)
  case Nil
  then show ?case by simp
next
  case (Cons i "is")
  from Cons.prems obtain t ta tc sa sc vc where
    ax: "plan_axis (x ! i) (y ! i) (v0 ! i) (a0 ! i) (v_max ! i) (a_max ! i) = Inr (t, ta, tc, sa, sc, vc)"
    and rest: "plan_loop x y v0 a0 v_max a_max is
                 (T @ [t], TA @ [ta], TC @ [tc], SA @ [sa], SC @ [sc], VC @ [vc]) = Inr acc"
    by (auto split: sum.splits)
  from Cons.IH [OF rest] obtain ps where
    len: "length ps = length is"
    and ax': "\<forall>k<length is. plan_axis (x ! (is ! k)) (y ! (is ! k)) (v0 ! (is ! k)) (a0 ! (is ! k))
                   (v_max ! (is ! k)) (a_max ! (is ! k)) = Inr (ps ! k)"
    and acc: "acc = ((T @ [t]) @ map fst ps, (TA @ [ta]) @ map (fst \<circ> snd) ps,
                    (TC @ [tc]) @ map (fst \<circ> snd \<circ> snd) ps,
                    (SA @ [sa]) @ map (fst \<circ> snd \<circ> snd \<circ> snd) ps,
                    (SC @ [sc]) @ map (fst \<circ> snd \<circ> snd \<circ> snd \<circ> snd) ps,
                    (VC @ [vc]) @ map (snd \<circ> snd \<circ> snd \<circ> snd \<circ> snd) ps)"
    by blast
  show ?case
  proof (intro exI [of _ "(t, ta, tc, sa, sc, vc) # ps"] conjI allI impI)
    show "length ((t, ta, tc, sa, sc, vc) # ps) = length (i # is)" using len by simp
  next
    fix k assume "k < length (i # is)"
    then show "plan_axis (x ! ((i # is) ! k)) (y ! ((i # is) ! k)) (v0 ! ((i # is) ! k))
         (a0 ! ((i # is) ! k)) (v_max ! ((i # is) ! k)) (a_max ! ((i # is) ! k))
         = Inr (((t, ta, tc, sa, sc, vc) # ps) ! k)"
      using ax ax' by (cases k) auto
  next
    show "acc = (T @ map fst ((t, ta, tc, sa, sc, vc) # ps),
        TA @ map (fst \<circ> snd) ((t, ta, tc, sa, sc, vc) # ps),
        TC @ map (fst \<circ> snd \<circ> snd) ((t, ta, tc, sa, sc, vc) # ps),
        SA @ map (fst \<circ> snd \<circ> snd \<circ> snd) ((t, ta, tc, sa, sc, vc) # ps),
        SC @ map (fst \<circ> snd \<circ> snd \<circ> snd \<circ> snd) ((t, ta, tc, sa, sc, vc) # ps),
        VC @ map (snd \<circ> snd \<circ> snd \<circ> snd \<circ> snd) ((t, ta, tc, sa, sc, vc) # ps))"
      using acc by simp
  qed
qed

text \<open>What a successful planning run returns.\<close>

lemma trapezoidal_profile_rows:
  assumes "trapezoidal_profile x y v0 a0 (Some v_max) (Some a_max) = Inr (dof, T, traj)"
  shows "\<exists>ps. length ps = dof
          \<and> length x = dof \<and> length y = dof \<and> length v0 = dof \<and> length a0 = dof
          \<and> length v_max = dof \<and> length a_max = dof
          \<and> (\<forall>i<dof. plan_axis (x ! i) (y ! i) (v0 ! i) (a0 ! i) (v_max ! i) (a_max ! i) = Inr (ps ! i))
          \<and> T = map fst ps
          \<and> trajectory_params x y v0 a0 v_max a_max dof
              = Inr (map fst ps, map (fst \<circ> snd) ps, map (fst \<circ> snd \<circ> snd) ps,
                     map (fst \<circ> snd \<circ> snd \<circ> snd) ps, map (fst \<circ> snd \<circ> snd \<circ> snd \<circ> snd) ps,
                     map (snd \<circ> snd \<circ> snd \<circ> snd \<circ> snd) ps)
          \<and> (\<forall>tq. traj tq =
                (if tq < 0 then Inl NegativeTime
                 else trajectory_loop x y v0 a0 v_max a_max tq (zip [0..<dof] ps)
                        (replicate dof (Fin 0, Fin 0, Fin 0))))"
proof -
  from assms have chk: "check_profile_params x y v0 a0 (Some v_max) (Some a_max) = Inr dof"
    by (auto simp: trapezoidal_profile_def split: sum.splits)
  then have lens: "length x = dof" "length y = dof" "length v0 = dof" "length a0 = dof"
      "length v_max = dof" "length a_max = dof"
    by (auto simp: check_profile_params_def split: if_splits)
  from assms chk obtain acc where
    tp: "trajectory_params x y v0 a0 v_max a_max dof = Inr acc"
    and T: "T = fst acc" and traj: "traj = trajectory dof x y v0 a0 v_max a_max acc"
    by (auto simp: trapezoidal_profile_def split: sum.splits)
  from plan_loop_rows [OF tp [unfolded trajectory_params_def]] obtain ps where
    len: "length ps = dof"
    and ax: "\<forall>k<dof. plan_axis (x ! k) (y ! k) (v0 ! k) (a0 ! k) (v_max ! k) (a_max ! k) = Inr (ps ! k)"
    and acc: "acc = (map fst ps, map (fst \<circ> snd) ps, map (fst \<circ> snd \<circ> snd) ps,
                     map (fst \<circ> snd \<circ> snd \<circ> snd) ps, map (fst \<circ> snd \<circ> snd \<circ> snd \<circ> snd) ps,
                     map (snd \<circ> snd \<circ> snd \<circ> snd \<circ> snd) ps)"
    by auto
  have "\<forall>tq. traj tq =
                (if tq < 0 then Inl NegativeTime
                 else trajectory_loop x y v0 a0 v_max a_max tq (zip [0..<dof] ps)
                        (replicate dof (Fin 0, Fin 0, Fin 0)))"
    unfolding traj acc trajectory_def by (simp add: zip_columns)
  then show ?thesis using len lens ax T acc tp by (intro exI [of _ ps]) simp
qed


section \<open>The loop of the evaluator\<close>

text \<open>When every row evaluates, the loop returns the array with each row written once.\<close>

lemma trajectory_loop_ok:
  assumes "\<forall>(i, p)\<in>set rows.
     trajectory_point (x ! i) (y ! i) (v0 ! i) (a0 ! i) (v_max ! i) (a_max ! i) p tq = Inr (f i p)"
  shows "trajectory_loop x y v0 a0 v_max a_max tq rows point
           = Inr (fold (\<lambda>(i, p) pt. pt[i := f i p]) rows point)"
  using assms
proof (induction rows arbitrary: point)
  case Nil
  show ?case by simp
next
  case (Cons r rows)
  obtain i p where r: "r = (i, p)" by (cases r) auto
  from Cons.prems have b: "trajectory_point (x ! i) (y ! i) (v0 ! i) (a0 ! i) (v_max ! i) (a_max ! i) p tq
      = Inr (f i p)"
    and rest: "\<forall>(i, p)\<in>set rows.
     trajectory_point (x ! i) (y ! i) (v0 ! i) (a0 ! i) (v_max ! i) (a_max ! i) p tq = Inr (f i p)"
    unfolding r by auto
  show ?case unfolding r by (simp add: b Cons.IH [OF rest])
qed

lemma trajectory_loop_Inr:
  assumes "trajectory_loop x y v0 a0 v_max a_max tq rows point = Inr res"
  shows "\<forall>(i, p)\<in>set rows. \<exists>r.
     trajectory_point (x ! i) (y ! i) (v0 ! i) (a0 ! i) (v_max ! i) (a_max ! i) p tq = Inr r"
  using assms
proof (induction rows arbitrary: point)
  case Nil
  show ?case by simp
next
  case (Cons r rows)
  obtain i p where r: "r = (i, p)" by (cases r) auto
  from Cons.prems obtain q where
    b: "trajectory_point (x ! i) (y ! i) (v0 ! i) (a0 ! i) (v_max ! i) (a_max ! i) p tq = Inr q"
    and rest: "trajectory_loop x y v0 a0 v_max a_max tq rows (point[i := q]) = Inr res"
    unfolding r by (auto split: sum.splits)
  show ?case unfolding r using b Cons.IH [OF rest] by (simp del: split_paired_Ex)
qed

lemma fold_update_length:
  "length (fold (\<lambda>(i, p) pt. pt[i := f i p]) rows point) = length point"
  by (induction rows arbitrary: point) auto

lemma fold_update_nth:
  assumes "distinct (map fst rows)" and "j < length point"
  shows "((j, p) \<in> set rows \<longrightarrow> fold (\<lambda>(i, p) pt. pt[i := f i p]) rows point ! j = f j p)
       \<and> (j \<notin> fst ` set rows \<longrightarrow> fold (\<lambda>(i, p) pt. pt[i := f i p]) rows point ! j = point ! j)"
  using assms
proof (induction rows arbitrary: point)
  case Nil
  show ?case by simp
next
  case (Cons r rows)
  obtain i q where r: "r = (i, q)" by (cases r) auto
  have d: "distinct (map fst rows)" and ni: "i \<notin> fst ` set rows"
    using Cons.prems(1) unfolding r by auto
  have len: "j < length (point[i := f i q])" using Cons.prems(2) by simp
  note IH = Cons.IH [OF d len]
  show ?case
  proof (intro conjI impI)
    assume "(j, p) \<in> set (r # rows)"
    then consider "j = i" "p = q" | "(j, p) \<in> set rows" unfolding r by auto
    then show "fold (\<lambda>(i, p) pt. pt[i := f i p]) (r # rows) point ! j = f j p"
    proof cases
      case 1
      then show ?thesis using IH ni Cons.prems(2) unfolding r by simp
    next
      case 2
      then show ?thesis using IH unfolding r by simp
    qed
  next
    assume "j \<notin> fst ` set (r # rows)"
    then have "j \<noteq> i" and "j \<notin> fst ` set rows" unfolding r by auto
    then show "fold (\<lambda>(i, p) pt. pt[i := f i p]) (r # rows) point ! j = point ! j"
      using IH unfolding r by simp
  qed
qed

lemma fold_update_rows:
  assumes "length ps = n" and "length point = n" and "j < n"
  shows "fold (\<lambda>(i, p) pt. pt[i := f i p]) (zip [0..<n] ps) point ! j = f j (ps ! j)"
proof -
  have d: "distinct (map fst (zip [0..<n] ps))" using assms(1) by simp
  have m: "(j, ps ! j) \<in> set (zip [0..<n] ps)"
    using assms(1,3) by (auto simp: set_zip intro!: exI [of _ j])
  show ?thesis using fold_update_nth [OF d, of j point "ps ! j" f] m assms by simp
qed


section \<open>The evaluator on one axis\<close>




lemma minimum_time_planner_tc:
  assumes "minimum_time_planner x y v0 a0 v_max a_max = Inr (t, ta, tc, sa, sc, vc)"
  shows "tc = Fin 0"
  by (rule minimum_time_planner_result(2) [OF assms])

lemma plan_axis_cruise:
  assumes "plan_axis x y v0 a0 v_max a_max = Inr (t, ta, Fin tc, sa, sc, vc)" and "0 < tc"
  shows "trapezoidal_planner x y v0 a0 v_max a_max = Inr (t, ta, Fin tc, sa, sc, vc)"
proof (cases "minimum_time_planner x y v0 a0 v_max a_max")
  case (Inr p)
  then have "p = (t, ta, Fin tc, sa, sc, vc)" using assms(1) by (simp add: plan_axis_def)
  then have "Fin tc = Fin 0" using Inr minimum_time_planner_tc by blast
  then show ?thesis using assms(2) by simp
next
  case (Inl e)
  then show ?thesis using assms(1) by (cases e) (simp_all add: plan_axis_def)
qed

text \<open>
  C5, amended. For every planned axis whose profile has \<open>ta > 0\<close> and \<open>tc > 0\<close>,
  evaluating exactly at the query time \<open>ta\<close> takes the acceleration branch
  (\<^verbatim>\<open>0 < _t <= ta\<close> comes first in the chain): the acceleration is \<open>a_max\<close>, which is
  not 0; the velocity \<open>a_max * ta + v0\<close> equals \<open>vc\<close> and the position
  \<open>x + a_max * ta\<^sup>2 / 2 + v0 * ta\<close> equals \<open>x + sa + vc * (ta - ta)\<close>.
\<close>

theorem trajectory_point_at_ramp_end:
  assumes "plan_axis x y v0 a0 v_max a_max = Inr (t, Fin ta, Fin tc, sa, sc, vc)"
    and "0 < ta" and "0 < tc"
  shows "trajectory_point x y v0 a0 v_max a_max (t, Fin ta, Fin tc, sa, sc, vc) ta
           = Inr (Fin a_max, vc, fadd (fadd (Fin x) sa) (fmul vc (fsub (Fin ta) (Fin ta))))
         \<and> a_max \<noteq> 0"
proof -
  have tp: "trapezoidal_planner x y v0 a0 v_max a_max = Inr (t, Fin ta, Fin tc, sa, sc, vc)"
    by (rule plan_axis_cruise [OF assms(1,3)])
  from trapezoidal_planner_result [OF tp]
  have a: "a_max \<noteq> 0" and ta: "ta = (v_max - v0) / a_max"
    and sa: "sa = Fin (a_max * ta\<^sup>2 / 2 + v0 * ta)" and vc: "vc = Fin v_max"
    and o: "\<not> pow2_overflows ta"
    by auto
  have v: "a_max * ta + v0 = v_max" using a by (simp add: ta)
  have "trajectory_point x y v0 a0 v_max a_max (t, Fin ta, Fin tc, sa, sc, vc) ta
          = Inr (Fin a_max, Fin (a_max * ta + v0), Fin (x + a_max * ta\<^sup>2 / 2 + v0 * ta))"
    using assms(2) o by (simp add: trajectory_point_def)
  then show ?thesis using a by (simp add: v sa vc fsub_def)
qed

lemma sqrt16: "sqrt 16 = 4"
  by (rule real_sqrt_unique) auto


lemma cruise_example_axis:
  "plan_axis 0 8 0 0 3 2 = Inr (Fin (25/6), Fin (3/2), Fin (7/6), Fin (9/4), Fin (7/2), Fin 3)"
  by (simp add: plan_axis_def mtp_simps sqrt16 cruise_example_trapezoidal)

text \<open>
  C5, as stated, fails: on the trapezoidal profile of the move from 0 to 8 with
  \<open>v_max = 3\<close> and \<open>a_max = 2\<close>, the sample at \<open>ta = 3/2\<close> has acceleration 2, not 0.
\<close>

theorem ramp_end_is_acceleration:
  "plan_axis 0 8 0 0 3 2 = Inr (Fin (25/6), Fin (3/2), Fin (7/6), Fin (9/4), Fin (7/2), Fin 3)
   \<and> (0::real) < 3/2 \<and> (0::real) < 7/6
   \<and> trajectory_point 0 8 0 0 3 2 (Fin (25/6), Fin (3/2), Fin (7/6), Fin (9/4), Fin (7/2), Fin 3) (3/2)
       = Inr (Fin 2, Fin 3, Fin (9/4))
   \<and> Fin 2 \<noteq> Fin 0"
  by (simp add: cruise_example_axis trajectory_point_def power2_eq_square small_no_overflow)

theorem trajectory_point_at_ramp_end_witness:
  "plan_axis 0 8 0 0 3 2 = Inr (Fin (25/6), Fin (3/2), Fin (7/6), Fin (9/4), Fin (7/2), Fin 3)
   \<and> (0::real) < 3/2 \<and> (0::real) < 7/6
   \<and> trajectory_point 0 8 0 0 3 2 (Fin (25/6), Fin (3/2), Fin (7/6), Fin (9/4), Fin (7/2), Fin 3) (3/2)
       = Inr (Fin 2, Fin 3, fadd (fadd (Fin 0) (Fin (9/4))) (fmul (Fin 3) (fsub (Fin (3/2)) (Fin (3/2)))))
   \<and> (2::real) \<noteq> 0"
  using trajectory_point_at_ramp_end [OF cruise_example_axis] cruise_example_axis by simp


section \<open>The boundary states of a planned trajectory\<close>

text \<open>
  The evaluator a planning run returns is \<open>trajectory\<close> over the six planned lists, each
  with one element for each degree of freedom, whatever values the planners computed.
\<close>

lemma trapezoidal_profile_closure:
  assumes "trapezoidal_profile x y v0 a0 (Some v_max) (Some a_max) = Inr (dof, T, traj)"
  shows "\<exists>TA TC SA SC VC.
           trajectory_params x y v0 a0 v_max a_max dof = Inr (T, TA, TC, SA, SC, VC)
         \<and> traj = trajectory dof x y v0 a0 v_max a_max (T, TA, TC, SA, SC, VC)
         \<and> length T = dof \<and> length TA = dof \<and> length TC = dof
         \<and> length SA = dof \<and> length SC = dof \<and> length VC = dof"
proof -
  from assms obtain acc where
    tp: "trajectory_params x y v0 a0 v_max a_max dof = Inr acc"
    and T: "T = fst acc" and traj: "traj = trajectory dof x y v0 a0 v_max a_max acc"
    by (auto simp: trapezoidal_profile_def split: sum.splits)
  from plan_loop_rows [OF tp [unfolded trajectory_params_def]] obtain ps where
    len: "length ps = dof"
    and acc: "acc = (map fst ps, map (fst \<circ> snd) ps, map (fst \<circ> snd \<circ> snd) ps,
                     map (fst \<circ> snd \<circ> snd \<circ> snd) ps, map (fst \<circ> snd \<circ> snd \<circ> snd \<circ> snd) ps,
                     map (snd \<circ> snd \<circ> snd \<circ> snd \<circ> snd) ps)"
    by auto
  show ?thesis using tp T traj len unfolding acc by simp
qed













section \<open>The initial acceleration and the evaluator\<close>

lemma scenario_b_params:
  "trajectory_params [0] [2] [0] a0 [3] [2] (Suc 0)
     = Inr ([Fin 2], [Fin 1], [Fin 0], [Fin 1], [Fin 0], [Fin 2])"
  by (simp add: trajectory_params_def plan_axis_a0 [of _ _ _ "a0 ! 0" _ _ 0] scenario_b_axis)

lemma scenario_b_plan:
  "trapezoidal_profile [0] [2] [0] [a] (Some [3]) (Some [2])
     = Inr (1, [Fin 2],
            trajectory 1 [0] [2] [0] [a] [3] [2]
              ([Fin 2], [Fin 1], [Fin 0], [Fin 1], [Fin 0], [Fin 2]))"
  by (simp add: trapezoidal_profile_def check_profile_params_def scenario_b_params)

lemma flt_not_fle: "flt a b \<Longrightarrow> \<not> fle b a"
  by (cases a; cases b) auto

lemma trajectory_point_a0:
  "trajectory_point x y v0 a0 v_max a_max p tq = trajectory_point x y v0 a0' v_max a_max p tq
   \<or> ((tq = 0 \<or> fle (fst p) (Fin tq))
      \<and> (\<exists>v q. trajectory_point x y v0 a0 v_max a_max p tq = Inr (Fin a0, v, q)
              \<and> trajectory_point x y v0 a0' v_max a_max p tq = Inr (Fin a0', v, q)))"
  by (cases p) (auto simp: trajectory_point_def Let_def)

lemma trajectory_loop_a0:
  "(\<exists>e. trajectory_loop x y v0 a0 v_max a_max tq rows point = Inl e
        \<and> trajectory_loop x y v0 a0' v_max a_max tq rows point' = Inl e)
   \<or> (\<exists>r r'. trajectory_loop x y v0 a0 v_max a_max tq rows point = Inr r
        \<and> trajectory_loop x y v0 a0' v_max a_max tq rows point' = Inr r')"
proof (induction rows arbitrary: point point')
  case Nil
  show ?case by simp
next
  case (Cons r rows)
  obtain i p where r: "r = (i, p)" by (cases r) auto
  let ?b = "trajectory_point (x ! i) (y ! i) (v0 ! i) (a0 ! i) (v_max ! i) (a_max ! i) p tq"
  let ?b' = "trajectory_point (x ! i) (y ! i) (v0 ! i) (a0' ! i) (v_max ! i) (a_max ! i) p tq"
  have d: "?b = ?b' \<or> (\<exists>q q'. ?b = Inr q \<and> ?b' = Inr q')"
    using trajectory_point_a0 [of "x ! i" "y ! i" "v0 ! i" "a0 ! i" "v_max ! i" "a_max ! i" p tq "a0' ! i"]
    by blast
  have "(\<exists>e. ?b = Inl e \<and> ?b' = Inl e) \<or> (\<exists>q q'. ?b = Inr q \<and> ?b' = Inr q')"
  proof (cases ?b)
    case (Inl e)
    then have "?b' = Inl e" using d by (metis sum.distinct(1))
    then show ?thesis using Inl by blast
  next
    case (Inr q)
    then have "\<exists>q'. ?b' = Inr q'" using d by metis
    then show ?thesis using Inr by blast
  qed
  then consider e where "?b = Inl e" "?b' = Inl e" | q q' where "?b = Inr q" "?b' = Inr q'"
    by blast
  then show ?case
  proof cases
    case 1
    then show ?thesis unfolding r by simp
  next
    case 2
    then show ?thesis unfolding r using Cons.IH [of "point[i := q]" "point'[i := q']"] by simp
  qed
qed

text \<open>
  C10. Two planning runs whose inputs differ only in the list \<open>a0\<close> (of the same length)
  yield the same result lists \<open>T, TA, TC, SA, SC, VC\<close>, and their evaluators agree at every
  query time: both raise the same error, or both return, and the rows of axis \<open>i\<close> are
  identical whenever \<open>0 < tq < T[i]\<close>. A row can differ only at \<open>tq = 0\<close> or
  \<open>tq \<ge> T[i]\<close>, and then only in its acceleration, which is \<open>a0[i]\<close> echoed back.
\<close>

theorem a0_only_at_boundaries:
  assumes "trapezoidal_profile x y v0 a0 (Some v_max) (Some a_max) = Inr (dof, T, traj)"
    and "length a0' = length a0"
  shows "\<exists>traj'. trapezoidal_profile x y v0 a0' (Some v_max) (Some a_max) = Inr (dof, T, traj')
     \<and> trajectory_params x y v0 a0' v_max a_max dof = trajectory_params x y v0 a0 v_max a_max dof
     \<and> (\<forall>tq. (\<exists>e. traj tq = Inl e \<and> traj' tq = Inl e)
            \<or> (\<exists>pts pts'. traj tq = Inr pts \<and> traj' tq = Inr pts'
                  \<and> length pts = dof \<and> length pts' = dof
                  \<and> (\<forall>i<dof. (0 < tq \<and> flt (Fin tq) (T ! i) \<longrightarrow> pts ! i = pts' ! i)
                        \<and> (pts ! i = pts' ! i
                           \<or> ((tq = 0 \<or> fle (T ! i) (Fin tq))
                              \<and> (\<exists>v q. pts ! i = (Fin (a0 ! i), v, q)
                                      \<and> pts' ! i = (Fin (a0' ! i), v, q)))))))"
proof -
  from trapezoidal_profile_rows [OF assms(1)] obtain ps where
    len: "length ps = dof"
    and lens: "length x = dof" "length y = dof" "length v0 = dof" "length a0 = dof"
      "length v_max = dof" "length a_max = dof"
    and T: "T = map fst ps"
    and tp: "trajectory_params x y v0 a0 v_max a_max dof
              = Inr (map fst ps, map (fst \<circ> snd) ps, map (fst \<circ> snd \<circ> snd) ps,
                     map (fst \<circ> snd \<circ> snd \<circ> snd) ps, map (fst \<circ> snd \<circ> snd \<circ> snd \<circ> snd) ps,
                     map (snd \<circ> snd \<circ> snd \<circ> snd \<circ> snd) ps)"
    and traj: "\<forall>tq. traj tq =
                (if tq < 0 then Inl NegativeTime
                 else trajectory_loop x y v0 a0 v_max a_max tq (zip [0..<dof] ps)
                        (replicate dof (Fin 0, Fin 0, Fin 0)))"
    by blast
  let ?acc = "(map fst ps, map (fst \<circ> snd) ps, map (fst \<circ> snd \<circ> snd) ps,
                     map (fst \<circ> snd \<circ> snd \<circ> snd) ps, map (fst \<circ> snd \<circ> snd \<circ> snd \<circ> snd) ps,
                     map (snd \<circ> snd \<circ> snd \<circ> snd \<circ> snd) ps)"
  let ?z = "replicate dof (Fin 0, Fin 0, Fin 0 :: fl)"
  define traj' where "traj' = trajectory dof x y v0 a0' v_max a_max ?acc"
  have same: "trajectory_params x y v0 a0' v_max a_max dof = trajectory_params x y v0 a0 v_max a_max dof"
    unfolding trajectory_params_def by (rule plan_loop_a0)
  have chk: "check_profile_params x y v0 a0' (Some v_max) (Some a_max) = Inr dof"
    using lens assms(2) by (simp add: check_profile_params_def)
  have plan': "trapezoidal_profile x y v0 a0' (Some v_max) (Some a_max) = Inr (dof, T, traj')"
    unfolding trapezoidal_profile_def chk traj'_def by (simp add: same tp T)
  have traj'_eq: "traj' tq =
                (if tq < 0 then Inl NegativeTime
                 else trajectory_loop x y v0 a0' v_max a_max tq (zip [0..<dof] ps) ?z)" for tq
    unfolding traj'_def trajectory_def by (simp add: zip_columns)
  have rel: "(\<exists>e. traj tq = Inl e \<and> traj' tq = Inl e)
            \<or> (\<exists>pts pts'. traj tq = Inr pts \<and> traj' tq = Inr pts'
                  \<and> length pts = dof \<and> length pts' = dof
                  \<and> (\<forall>i<dof. (0 < tq \<and> flt (Fin tq) (T ! i) \<longrightarrow> pts ! i = pts' ! i)
                        \<and> (pts ! i = pts' ! i
                           \<or> ((tq = 0 \<or> fle (T ! i) (Fin tq))
                              \<and> (\<exists>v q. pts ! i = (Fin (a0 ! i), v, q)
                                      \<and> pts' ! i = (Fin (a0' ! i), v, q))))))" for tq
  proof (cases "tq < 0")
    case True
    then show ?thesis using traj traj'_eq by simp
  next
    case False
    let ?b = "\<lambda>i p. trajectory_point (x ! i) (y ! i) (v0 ! i) (a0 ! i) (v_max ! i) (a_max ! i) p tq"
    let ?b' = "\<lambda>i p. trajectory_point (x ! i) (y ! i) (v0 ! i) (a0' ! i) (v_max ! i) (a_max ! i) p tq"
    let ?f = "\<lambda>i p. projr (?b i p)" and ?f' = "\<lambda>i p. projr (?b' i p)"
    let ?l = "trajectory_loop x y v0 a0 v_max a_max tq (zip [0..<dof] ps) ?z"
    let ?l' = "trajectory_loop x y v0 a0' v_max a_max tq (zip [0..<dof] ps) ?z"
    have t: "traj tq = ?l" and t': "traj' tq = ?l'" using False traj traj'_eq by simp_all
    from trajectory_loop_a0 [of x y v0 a0 v_max a_max tq "zip [0..<dof] ps" ?z a0' ?z]
    consider e where "?l = Inl e" "?l' = Inl e" | r r' where "?l = Inr r" "?l' = Inr r'"
      by blast
    then show ?thesis
    proof cases
      case 1
      then show ?thesis using t t' by simp
    next
      case 2
      have ok: "\<forall>(i, p)\<in>set (zip [0..<dof] ps). ?b i p = Inr (?f i p)"
        using trajectory_loop_Inr [OF 2(1)] by auto
      have ok': "\<forall>(i, p)\<in>set (zip [0..<dof] ps). ?b' i p = Inr (?f' i p)"
        using trajectory_loop_Inr [OF 2(2)] by auto
      let ?pts = "fold (\<lambda>(i, p) pt. pt[i := ?f i p]) (zip [0..<dof] ps) ?z"
      let ?pts' = "fold (\<lambda>(i, p) pt. pt[i := ?f' i p]) (zip [0..<dof] ps) ?z"
      have l: "?l = Inr ?pts" by (rule trajectory_loop_ok [OF ok])
      have l': "?l' = Inr ?pts'" by (rule trajectory_loop_ok [OF ok'])
      have row: "(0 < tq \<and> flt (Fin tq) (T ! i) \<longrightarrow> ?pts ! i = ?pts' ! i)
                        \<and> (?pts ! i = ?pts' ! i
                           \<or> ((tq = 0 \<or> fle (T ! i) (Fin tq))
                              \<and> (\<exists>v q. ?pts ! i = (Fin (a0 ! i), v, q)
                                      \<and> ?pts' ! i = (Fin (a0' ! i), v, q))))" if i: "i < dof" for i
      proof -
        have m: "(i, ps ! i) \<in> set (zip [0..<dof] ps)"
          using i len by (auto simp: set_zip intro!: exI [of _ i])
        have b: "?b i (ps ! i) = Inr (?pts ! i)"
          using ok m fold_update_rows [OF len _ i, of ?z ?f] by auto
        have b': "?b' i (ps ! i) = Inr (?pts' ! i)"
          using ok' m fold_update_rows [OF len _ i, of ?z ?f'] by auto
        have Ti: "T ! i = fst (ps ! i)" using i len by (simp add: T)
        from trajectory_point_a0 [of "x ! i" "y ! i" "v0 ! i" "a0 ! i" "v_max ! i" "a_max ! i"
            "ps ! i" tq "a0' ! i"]
        have d: "?pts ! i = ?pts' ! i
                 \<or> ((tq = 0 \<or> fle (T ! i) (Fin tq))
                    \<and> (\<exists>v q. ?pts ! i = (Fin (a0 ! i), v, q) \<and> ?pts' ! i = (Fin (a0' ! i), v, q)))"
          unfolding b b' Ti by simp
        have "?pts ! i = ?pts' ! i" if "0 < tq" and "flt (Fin tq) (T ! i)"
          using d that flt_not_fle [OF that(2)] by auto
        then show ?thesis using d by blast
      qed
      have "length ?pts = dof" and "length ?pts' = dof" by (simp_all add: fold_update_length)
      then show ?thesis using t t' l l' row by (intro disjI2 exI [of _ ?pts] exI [of _ ?pts']) simp
    qed
  qed
  show ?thesis using plan' same rel by blast
qed

theorem a0_only_at_boundaries_witness:
  "trapezoidal_profile [0] [2] [0] [0] (Some [3]) (Some [2])
     = Inr (1, [Fin 2],
            trajectory 1 [0] [2] [0] [0] [3] [2]
              ([Fin 2], [Fin 1], [Fin 0], [Fin 1], [Fin 0], [Fin 2]))
   \<and> length [7::real] = length [0::real]
   \<and> (\<exists>traj'. trapezoidal_profile [0] [2] [0] [7] (Some [3]) (Some [2]) = Inr (1, [Fin 2], traj')
       \<and> trajectory_params [0] [2] [0] [7] [3] [2] 1 = trajectory_params [0] [2] [0] [0] [3] [2] 1
       \<and> (\<exists>pts pts'. trajectory 1 [0] [2] [0] [0] [3] [2]
              ([Fin 2], [Fin 1], [Fin 0], [Fin 1], [Fin 0], [Fin 2]) (3/2) = Inr pts
            \<and> traj' (3/2) = Inr pts' \<and> pts ! 0 = pts' ! 0))"
proof -
  have h: "length [7::real] = length [0::real]" by simp
  have lt: "(0::real) < 3/2 \<and> flt (Fin (3/2)) ([Fin 2] ! 0)" by simp
  have ne: "(3/2 :: real) \<noteq> 0" by simp
  from a0_only_at_boundaries [OF scenario_b_plan [of 0] h]
  obtain traj' where
    1: "trapezoidal_profile [0] [2] [0] [7] (Some [3]) (Some [2]) = Inr (1, [Fin 2], traj')"
    and 2: "trajectory_params [0] [2] [0] [7] [3] [2] 1 = trajectory_params [0] [2] [0] [0] [3] [2] 1"
    and 3: "\<forall>tq. (\<exists>e. trajectory 1 [0] [2] [0] [0] [3] [2]
              ([Fin 2], [Fin 1], [Fin 0], [Fin 1], [Fin 0], [Fin 2]) tq = Inl e \<and> traj' tq = Inl e)
            \<or> (\<exists>pts pts'. trajectory 1 [0] [2] [0] [0] [3] [2]
              ([Fin 2], [Fin 1], [Fin 0], [Fin 1], [Fin 0], [Fin 2]) tq = Inr pts \<and> traj' tq = Inr pts'
                  \<and> length pts = 1 \<and> length pts' = 1
                  \<and> (\<forall>i<1. (0 < tq \<and> flt (Fin tq) ([Fin 2] ! i) \<longrightarrow> pts ! i = pts' ! i)
                        \<and> (pts ! i = pts' ! i
                           \<or> ((tq = 0 \<or> fle ([Fin 2] ! i) (Fin tq))
                              \<and> (\<exists>v q. pts ! i = (Fin ([0] ! i), v, q)
                                      \<and> pts' ! i = (Fin ([7] ! i), v, q))))))"
    by blast
  have ev: "trajectory 1 [0] [2] [0] [0] [3] [2]
              ([Fin 2], [Fin 1], [Fin 0], [Fin 1], [Fin 0], [Fin 2]) (3/2) = Inr [(Fin (- 2), Fin 1, Fin (7/4))]"
    by (simp add: trajectory_def trajectory_point_def fsub_def fpow2_def Let_def power2_eq_square)
  from 3 [rule_format, of "3/2"] ev lt
  have "\<exists>pts pts'. trajectory 1 [0] [2] [0] [0] [3] [2]
              ([Fin 2], [Fin 1], [Fin 0], [Fin 1], [Fin 0], [Fin 2]) (3/2) = Inr pts
            \<and> traj' (3/2) = Inr pts' \<and> pts ! 0 = pts' ! 0"
    by auto
  then show ?thesis using scenario_b_plan [of 0] h 1 2 by blast
qed


end
